theory Spec2Isabelle
  imports Main
begin

section \<open>The typed syntax tree (input of the lowering pass)\<close>

text \<open>
  The lowering pass of \<^verbatim>\<open>pyscc/compiler.py\<close> walks a Python syntax tree whose expression
  nodes carry an inferred type in the attribute \<^verbatim>\<open>typ\<close>. The node classes and the type
  tags come from Python's \<^verbatim>\<open>ast\<close> module and from the type inference pass; they are
  modelled as datatypes. Every expression constructor has the inferred type as its last
  field. The fragment covers the node kinds with a \<^verbatim>\<open>visit_\<close> method other than
  \<^verbatim>\<open>Subscript\<close>; \<open>OtherExpr\<close> and \<open>OtherStmt\<close> stand for a node class without one.
\<close>

datatype pytyp =
    IntegerType
  | ByteStringType
  | StringType
  | BoolType
  | UnitType
  | TupleType "pytyp list"
  | ListType pytyp
  | FunctionType "pytyp list" pytyp

datatype operator =
  Add | Sub | Mult | Div | Mod | Pow | LShift | RShift | BitOr | BitXor | BitAnd
  | FloorDiv | MatMult

datatype cmpop = Eq | NotEq | Lt | LtE | Gt | GtE | Is | IsNot | In | NotIn

datatype expr_context = Load | Store | Del

text \<open>The value of a \<^verbatim>\<open>Constant\<close> node, by its runtime kind; \<open>CFloat\<close> stands for the
  kinds that the constant table does not list.\<close>

datatype const_value =
    CStr string
  | CBytes string
  | CInt int
  | CBool bool
  | CNone
  | CFloat

datatype expr =
    BinOp expr operator expr pytyp
  | Compare expr "cmpop list" "expr list" pytyp
  | Call expr "expr list" pytyp
  | Name string expr_context pytyp
  | Constant const_value pytyp
  | OtherExpr string pytyp

datatype stmt =
    Assign "expr list" expr
  | Expr expr
  | FunctionDef string "string list" "stmt list"
  | While expr "stmt list" "stmt list"
  | For expr expr "stmt list" "stmt list"
  | Return "expr option"
  | Pass
  | OtherStmt string

fun typ_of :: "expr \<Rightarrow> pytyp" where
  "typ_of (BinOp l oper r t) = t"
| "typ_of (Compare l ops cs t) = t"
| "typ_of (Call f args t) = t"
| "typ_of (Name n c t) = t"
| "typ_of (Constant v t) = t"
| "typ_of (OtherExpr k t) = t"

section \<open>The target term algebra\<close>

text \<open>
  The built-in primitives that the compiler refers to (\<^verbatim>\<open>uplc_ast.BuiltInFun\<close>) and the
  term constructors it calls (\<^verbatim>\<open>pluto_ast\<close>). \<open>Lambda\<close> abstracts over a list of
  parameter names, \<open>Apply\<close> applies a term to a list of arguments, \<open>LetIn\<close> is
  \<^verbatim>\<open>plt.Let\<close>. Byte strings are lists of 8-bit characters.
\<close>

datatype builtin =
    AddInteger
  | SubtractInteger
  | MultiplyInteger
  | DivideInteger
  | RemainderInteger
  | AppendByteString
  | EqualsInteger
  | LessThanInteger
  | EqualsByteString
  | Trace

datatype ast =
    Var string
  | Lambda "string list" ast
  | Apply ast "ast list"
  | LetIn "(string \<times> ast) list" ast
  | Ite ast ast ast
  | BuiltIn builtin
  | Integer int
  | ByteString string
  | Text string
  | Bool bool
  | Unit
  | Force ast
  | Error

section \<open>Dispatch tables\<close>

definition STATEMONAD :: string where
  "STATEMONAD = ''s''"

definition BinOpMap :: "operator \<Rightarrow> (pytyp \<rightharpoonup> builtin) option" where
  "BinOpMap oper = (case oper of
      Add \<Rightarrow> Some [IntegerType \<mapsto> AddInteger, ByteStringType \<mapsto> AppendByteString]
    | Sub \<Rightarrow> Some [IntegerType \<mapsto> SubtractInteger]
    | Mult \<Rightarrow> Some [IntegerType \<mapsto> MultiplyInteger]
    | Div \<Rightarrow> Some [IntegerType \<mapsto> DivideInteger]
    | Mod \<Rightarrow> Some [IntegerType \<mapsto> RemainderInteger]
    | _ \<Rightarrow> None)"

definition CmpMap :: "cmpop \<Rightarrow> (pytyp \<rightharpoonup> builtin) option" where
  "CmpMap oper = (case oper of
      Eq \<Rightarrow> Some [IntegerType \<mapsto> EqualsInteger, ByteStringType \<mapsto> EqualsByteString,
                  BoolType \<mapsto> EqualsInteger]
    | Lt \<Rightarrow> Some [IntegerType \<mapsto> LessThanInteger]
    | _ \<Rightarrow> None)"

section \<open>Errors of the lowering pass\<close>

text \<open>
  Every \<^verbatim>\<open>raise\<close> and every failing \<^verbatim>\<open>assert\<close> of the compiler is a value. The message
  of a \<^verbatim>\<open>NotImplementedError\<close> is kept as the data that the source formats into it.
\<close>

datatype message =
    BinOpNotImplemented operator
  | BinOpNotImplementedForType operator pytyp
  | CmpNotImplemented cmpop
  | CmpNotImplementedForType cmpop pytyp
  | ConstantsNotSupported const_value
  | ContextNotSupported expr_context
  | ListIteratorsNotImplemented
  | RawForNotSupported
  | ReturnNotSupported
  | CanNotCompile string

datatype error =
    NotImplementedError message
  | AssertionError string
  | IndexError
  | TypeError

text \<open>
  \<^verbatim>\<open>ConstantMap\<close> maps the runtime kind of a constant to a constructor of the term
  algebra, and \<^verbatim>\<open>visit_Constant\<close> calls that constructor on the value. An entry of the
  model is the result of the call. The constructor \<^verbatim>\<open>plt.Unit\<close> takes no argument
  (\<^verbatim>\<open>visit_NoneType\<close> calls it without one), so the call on \<^verbatim>\<open>None\<close> raises
  \<^verbatim>\<open>TypeError\<close>.
\<close>

definition ConstantMap :: "const_value \<Rightarrow> (error + ast) option" where
  "ConstantMap v = (case v of
      CStr s \<Rightarrow> Some (Inr (Text s))
    | CBytes b \<Rightarrow> Some (Inr (ByteString b))
    | CInt i \<Rightarrow> Some (Inr (Integer i))
    | CBool b \<Rightarrow> Some (Inr (Bool b))
    | CNone \<Rightarrow> Some (Inl TypeError)
    | CFloat \<Rightarrow> None)"

section \<open>Environment encoding and tuple emulation\<close>

text \<open>Identifiers are modelled by their UTF-8 bytes, so \<^verbatim>\<open>str.encode\<close> is the identity.\<close>

definition encode :: "string \<Rightarrow> string" where
  "encode name = name"

text \<open>
  \<^verbatim>\<open>extend_statemonad\<close>: the loop over \<^verbatim>\<open>zip(names, values)\<close> wraps the chain built so
  far into one more conditional at every step.
\<close>

fun extend_loop :: "(string \<times> ast) list \<Rightarrow> ast \<Rightarrow> ast" where
  "extend_loop [] additional_compares = additional_compares"
| "extend_loop ((name, val) # rest) additional_compares =
     extend_loop rest
       (Ite (Apply (BuiltIn EqualsByteString) [Var ''x'', ByteString (encode name)])
            val
            additional_compares)"

definition extend_statemonad :: "string list \<Rightarrow> ast list \<Rightarrow> ast \<Rightarrow> ast" where
  "extend_statemonad names vals old_statemonad =
     Lambda [''x''] (extend_loop (zip names vals) (Apply old_statemonad [Var ''x'']))"

definition emulate_tuple :: "ast list \<Rightarrow> ast" where
  "emulate_tuple els = Lambda [''f''] (Apply (Var ''f'') els)"

text \<open>Decimal formatting of an integer, as an f-string does it.\<close>

fun show_nat :: "nat \<Rightarrow> string" where
  "show_nat n =
     (if n < 10 then [''0123456789'' ! n]
      else show_nat (n div 10) @ [''0123456789'' ! (n mod 10)])"

declare show_nat.simps [simp del]

definition show_int :: "int \<Rightarrow> string" where
  "show_int i = (if i < 0 then CHR ''-'' # show_nat (nat (- i)) else show_nat (nat i))"

definition emulate_nth :: "ast \<Rightarrow> int \<Rightarrow> int \<Rightarrow> ast" where
  "emulate_nth t n sz =
     Apply t [Lambda (map (\<lambda>i. ''v'' @ show_nat i) [0..<nat sz]) (Var (''v'' @ show_int n))]"

section \<open>Built-in bindings and the bootstrap environment\<close>

definition print_builtin :: ast where
  "print_builtin =
     Lambda [STATEMONAD]
       (Lambda [''x'']
          (Force (Apply (BuiltIn Trace)
                    [Apply (Var ''x'') [Var STATEMONAD], Var STATEMONAD])))"

definition range_builtin :: ast where
  "range_builtin =
     Lambda [STATEMONAD]
       (Lambda [''limit'']
          (emulate_tuple
             [Integer 0,
              Lambda [''state'']
                (emulate_tuple
                   [Apply (BuiltIn LessThanInteger) [Var ''state'', Var ''limit''],
                    Var ''state'',
                    Apply (BuiltIn AddInteger) [Var ''state'', Integer 1]])]))"

text \<open>The members of the enumeration \<^verbatim>\<open>PythonBuiltIn\<close>, in definition order.\<close>

definition PythonBuiltIn :: "(string \<times> ast) list" where
  "PythonBuiltIn = [(''print'', print_builtin), (''range'', range_builtin)]"

definition INITIAL_STATE :: ast where
  "INITIAL_STATE =
     extend_statemonad (map fst PythonBuiltIn) (map snd PythonBuiltIn)
       (Lambda [''x''] Error)"

section \<open>The lowering rules\<close>

text \<open>
  \<^verbatim>\<open>UPLCCompiler.visit\<close> dispatches on the node class: \<open>visit\<close> is the dispatch on
  expression nodes, \<open>visit_stmt\<close> the one on statement nodes. \<open>visit_args\<close> visits a list
  of expressions from left to right, as the generator over the arguments of a call does;
  the comparator of a \<^verbatim>\<open>Compare\<close> is visited through it as well, the list having one
  element there. An error stops the pass where Python would raise it: the table lookups
  of \<^verbatim>\<open>visit_BinOp\<close> and \<^verbatim>\<open>visit_Compare\<close> come before the visits of the operands.
\<close>

definition while_term :: "ast \<Rightarrow> ast \<Rightarrow> ast" where
  "while_term compiled_c compiled_s =
     Lambda [STATEMONAD]
       (LetIn
          [(''g'',
            Lambda [''s'', ''f'']
              (Ite (Apply compiled_c [Var ''s''])
                   (Apply (Var ''f'') [Apply compiled_s [Var ''s''], Var ''f''])
                   (Var ''s'')))]
          (Apply (Var ''g'') [Var STATEMONAD, Var ''g'']))"

definition is_Name :: "expr \<Rightarrow> bool" where
  "is_Name e = (case e of Name n c t \<Rightarrow> True | _ \<Rightarrow> False)"

definition name_id :: "expr \<Rightarrow> string" where
  "name_id e = (case e of Name n c t \<Rightarrow> n | _ \<Rightarrow> [])"

fun visit :: "expr \<Rightarrow> error + ast"
  and visit_args :: "expr list \<Rightarrow> error + ast list"
where
  "visit (BinOp left oper right t) =
     (case BinOpMap oper of
        None \<Rightarrow> Inl (NotImplementedError (BinOpNotImplemented oper))
      | Some opmap \<Rightarrow>
          (case opmap t of
             None \<Rightarrow> Inl (NotImplementedError (BinOpNotImplementedForType oper t))
           | Some b \<Rightarrow>
               (case visit left of
                  Inl e \<Rightarrow> Inl e
                | Inr l \<Rightarrow>
                    (case visit right of
                       Inl e \<Rightarrow> Inl e
                     | Inr r \<Rightarrow>
                         Inr (Lambda [STATEMONAD]
                                (Apply (BuiltIn b)
                                   [Apply l [Var STATEMONAD], Apply r [Var STATEMONAD]]))))))"
| "visit (Compare left ops comparators t) =
     (if length ops \<noteq> 1 then Inl (AssertionError ''Only single comparisons are supported'')
      else if length comparators \<noteq> 1
        then Inl (AssertionError ''Only single comparisons are supported'')
      else
        (case CmpMap (hd ops) of
           None \<Rightarrow> Inl (NotImplementedError (CmpNotImplemented (hd ops)))
         | Some opmap \<Rightarrow>
             (case opmap (typ_of left) of
                None \<Rightarrow>
                  Inl (NotImplementedError (CmpNotImplementedForType (hd ops) (typ_of left)))
              | Some b \<Rightarrow>
                  (case visit left of
                     Inl e \<Rightarrow> Inl e
                   | Inr l \<Rightarrow>
                       (case visit_args comparators of
                          Inl e \<Rightarrow> Inl e
                        | Inr rs \<Rightarrow>
                            Inr (Lambda [STATEMONAD]
                                   (Apply (BuiltIn b)
                                      [Apply l [Var STATEMONAD],
                                       Apply (hd rs) [Var STATEMONAD]])))))))"
| "visit (Constant v t) =
     (case ConstantMap v of
        None \<Rightarrow> Inl (NotImplementedError (ConstantsNotSupported v))
      | Some (Inl e) \<Rightarrow> Inl e
      | Some (Inr lit) \<Rightarrow> Inr (Lambda [STATEMONAD] lit))"
| "visit (Name n c t) =
     (if c = Load
        then Inr (Lambda [STATEMONAD] (Apply (Var STATEMONAD) [ByteString (encode n)]))
      else Inl (NotImplementedError (ContextNotSupported c)))"
| "visit (Call f args t) =
     (case visit f of
        Inl e \<Rightarrow> Inl e
      | Inr cf \<Rightarrow>
          (case visit_args args of
             Inl e \<Rightarrow> Inl e
           | Inr cas \<Rightarrow>
               Inr (Lambda [STATEMONAD]
                      (Apply cf (map (\<lambda>a. Apply a [Var STATEMONAD]) cas)))))"
| "visit (OtherExpr k t) = Inl (NotImplementedError (CanNotCompile k))"
| "visit_args [] = Inr []"
| "visit_args (a # as) =
     (case visit a of
        Inl e \<Rightarrow> Inl e
      | Inr c \<Rightarrow> (case visit_args as of Inl e \<Rightarrow> Inl e | Inr cs \<Rightarrow> Inr (c # cs)))"


text \<open>\<^verbatim>\<open>self.visit(None)\<close> reaches \<^verbatim>\<open>visit_NoneType\<close>.\<close>

definition visit_NoneType :: ast where
  "visit_NoneType = Lambda [STATEMONAD] Unit"

definition visit_opt :: "expr option \<Rightarrow> error + ast" where
  "visit_opt v = (case v of None \<Rightarrow> Inr visit_NoneType | Some e \<Rightarrow> visit e)"

definition is_Return :: "stmt \<Rightarrow> bool" where
  "is_Return n = (case n of Return v \<Rightarrow> True | _ \<Rightarrow> False)"

text \<open>
  \<open>sequence_loop\<close> is the \<^verbatim>\<open>for\<close> loop of \<^verbatim>\<open>visit_sequence\<close>; it runs over the reversed
  statement list with the term \<^verbatim>\<open>s\<close> built so far. In \<^verbatim>\<open>visit_While\<close> with an
  \<^verbatim>\<open>orelse\<close> the source visits a copy of the loop without its \<^verbatim>\<open>orelse\<close> after the
  statements of the \<^verbatim>\<open>orelse\<close>; the copy's condition and body have been compiled without
  error just before, so that visit returns the loop term of the other branch.
\<close>

definition return_value :: "stmt \<Rightarrow> expr option" where
  "return_value n = (case n of Return v \<Rightarrow> v | _ \<Rightarrow> None)"

definition function_term :: "string list \<Rightarrow> ast \<Rightarrow> ast \<Rightarrow> ast" where
  "function_term args compiled_body compiled_return =
     Lambda [STATEMONAD]
       (Lambda (map (\<lambda>i. ''p'' @ show_nat i) [0..<length args])
          (Apply compiled_return
             [Apply compiled_body
                [extend_statemonad args
                   (map (\<lambda>i. Var (''p'' @ show_nat i)) [0..<length args])
                   (Var STATEMONAD)]]))"

function (sequential) visit_stmt :: "stmt \<Rightarrow> error + ast"
  and sequence_loop :: "stmt list \<Rightarrow> ast \<Rightarrow> error + ast"
where
  "visit_stmt (Assign targets v) =
     (if length targets \<noteq> 1
        then Inl (AssertionError ''Assignments to more than one variable not supported yet'')
      else if \<not> is_Name (hd targets)
        then Inl (AssertionError ''Assignments to other things then names are not supported'')
      else
        (case visit v of
           Inl e \<Rightarrow> Inl e
         | Inr compiled_e \<Rightarrow>
             Inr (Lambda [STATEMONAD]
                    (extend_statemonad [name_id (hd targets)]
                       [Apply compiled_e [Var STATEMONAD]] (Var STATEMONAD)))))"
| "visit_stmt (Expr v) =
     (case visit v of
        Inl e \<Rightarrow> Inl e
      | Inr compiled \<Rightarrow>
          Inr (Lambda [STATEMONAD] (Apply (Lambda [''_''] (Var STATEMONAD)) [compiled])))"
| "visit_stmt (While test body orelse) =
     (case visit test of
        Inl e \<Rightarrow> Inl e
      | Inr compiled_c \<Rightarrow>
          (case sequence_loop (rev body) (Var STATEMONAD) of
             Inl e \<Rightarrow> Inl e
           | Inr s \<Rightarrow>
               (if orelse \<noteq> [] then
                  (case sequence_loop (rev orelse) (Var STATEMONAD) of
                     Inl e \<Rightarrow> Inl e
                   | Inr s' \<Rightarrow>
                       Inr (Lambda [STATEMONAD]
                              (Apply (while_term compiled_c (Lambda [STATEMONAD] s)) [s'])))
                else Inr (while_term compiled_c (Lambda [STATEMONAD] s)))))"
| "visit_stmt (FunctionDef name args body0) =
     (if body0 = [] then Inl IndexError
      else
        (let body = (if is_Return (last body0) then body0 else body0 @ [Return None]) in
         (case sequence_loop (rev (butlast body)) (Var STATEMONAD) of
            Inl e \<Rightarrow> Inl e
          | Inr s \<Rightarrow>
              (case visit_opt (return_value (last body)) of
                 Inl e \<Rightarrow> Inl e
               | Inr compiled_return \<Rightarrow>
                   Inr (function_term args (Lambda [STATEMONAD] s) compiled_return)))))"
| "visit_stmt (For target iter body orelse) =
     (case typ_of iter of
        ListType t \<Rightarrow> Inl (NotImplementedError ListIteratorsNotImplemented)
      | _ \<Rightarrow> Inl (NotImplementedError RawForNotSupported))"
| "visit_stmt (Return v) = Inl (NotImplementedError ReturnNotSupported)"
| "visit_stmt Pass = Inr (Lambda [STATEMONAD] (Var STATEMONAD))"
| "visit_stmt (OtherStmt k) = Inl (NotImplementedError (CanNotCompile k))"
| "sequence_loop [] s = Inr s"
| "sequence_loop (n # ns) s =
     (case visit_stmt n of
        Inl e \<Rightarrow> Inl e
      | Inr compiled_stmt \<Rightarrow> sequence_loop ns (Apply compiled_stmt [s]))"
  by pat_completeness auto
termination
proof -
  have size_rev: "size_list f (rev xs) = size_list f xs" for f :: "stmt \<Rightarrow> nat" and xs
    by (induction xs) simp_all
  have size_butlast: "size_list f (butlast xs) \<le> size_list f xs"
    for f :: "stmt \<Rightarrow> nat" and xs
    by (induction xs) simp_all
  show ?thesis
    by (relation "measure (case_sum size (\<lambda>p. size_list size (fst p)))")
       (auto simp: size_rev less_Suc_eq_le size_butlast)
qed

definition visit_sequence :: "stmt list \<Rightarrow> error + ast" where
  "visit_sequence node_seq =
     (case sequence_loop (rev node_seq) (Var STATEMONAD) of
        Inl e \<Rightarrow> Inl e
      | Inr s \<Rightarrow> Inr (Lambda [STATEMONAD] s))"

definition visit_Module :: "stmt list \<Rightarrow> error + ast" where
  "visit_Module body =
     (case visit_sequence body of
        Inl e \<Rightarrow> Inl e
      | Inr compiled \<Rightarrow> Inr (Apply compiled [INITIAL_STATE]))"


section \<open>Evaluation of target terms\<close>

text \<open>
  Modelled from the spec: the reduction engine of the target calculus, which is external to
  \<^verbatim>\<open>pyscc/compiler.py\<close> (the compiler only imports the term constructors of
  \<^verbatim>\<open>pluto_ast\<close> and the primitive names of \<^verbatim>\<open>uplc_ast\<close>). The spec describes a
  deterministic, single-threaded engine over variables, abstraction, application, local
  bindings, conditionals, literals, built-in primitives, forced and deferred evaluation
  markers and an explicit failure term, and fixes that the arguments of an application
  are evaluated left to right. The spec names the markers and the primitives only; their
  meaning is taken from the target machine, untyped Plutus Core. The model is a
  call-by-value environment machine:
  \<^item> an abstraction over several names is curried, an application to several arguments
    applies them one after the other, each argument being evaluated just before it is
    passed;
  \<^item> a conditional evaluates its condition and then only the branch taken;
  \<^item> a local binding evaluates the bound term and then the body with the name bound;
  \<^item> a primitive takes the forces that \<open>forces\<close> gives it before its operands: an
    application of a primitive that still waits for a force is stuck;
  \<^item> \<open>Force\<close> evaluates its operand, which must be a primitive that waits for a force;
    forcing any other value is stuck (a deferred term, the one other thing that can be
    forced, is never built by the compiler and has no constructor in the algebra here);
  \<^item> \<open>Error\<close> stops the evaluation with the outcome \<open>Failure\<close>; an ill-formed step (an
    unbound variable, the application of a literal, a primitive on operands of the wrong
    kind, a division by zero) stops it with \<open>Stuck\<close>;
  \<^item> the primitive \<open>Trace\<close> takes one force, then the event, a text, and a second
    operand; it appends the event to the log and returns the second operand.
  The first argument of \<open>eval\<close> is fuel: \<open>None\<close> means that the fuel ran out.
\<close>

datatype val =
    VInteger int
  | VByteString string
  | VText string
  | VBool bool
  | VUnit
  | VLam string ast "(string \<times> val) list"
  | VBuiltin builtin nat "val list"

datatype outcome = Value val | Failure | Stuck

text \<open>
  Modelled from the spec: the number of term operands of a primitive (two for each of
  the primitives here) and the number of forces it takes before them (one for the
  polymorphic \<open>Trace\<close>, none for the others), as on the target machine.
\<close>

definition arity :: "builtin \<Rightarrow> nat" where
  "arity b = 2"

definition forces :: "builtin \<Rightarrow> nat" where
  "forces b = (case b of Trace \<Rightarrow> 1 | _ \<Rightarrow> 0)"

definition int_args :: "val list \<Rightarrow> (int \<times> int) option" where
  "int_args args = (case args of [VInteger a, VInteger b] \<Rightarrow> Some (a, b) | _ \<Rightarrow> None)"

definition bytes_args :: "val list \<Rightarrow> (string \<times> string) option" where
  "bytes_args args =
     (case args of [VByteString a, VByteString b] \<Rightarrow> Some (a, b) | _ \<Rightarrow> None)"

definition on_ints :: "val list \<Rightarrow> (int \<Rightarrow> int \<Rightarrow> outcome) \<Rightarrow> outcome" where
  "on_ints args f = (case int_args args of Some (a, b) \<Rightarrow> f a b | None \<Rightarrow> Stuck)"

definition on_bytes :: "val list \<Rightarrow> (string \<Rightarrow> string \<Rightarrow> outcome) \<Rightarrow> outcome" where
  "on_bytes args f = (case bytes_args args of Some (a, b) \<Rightarrow> f a b | None \<Rightarrow> Stuck)"

text \<open>
  Modelled from the spec: the built-in primitives that the dispatch tables and the
  bootstrap bindings name, on their two operands. The arithmetic ones are total
  on integers except for a zero divisor; \<open>DivideInteger\<close> rounds down and
  \<open>RemainderInteger\<close> takes the sign of the dividend.
\<close>

definition run_builtin :: "builtin \<Rightarrow> val list \<Rightarrow> val list \<Rightarrow> outcome \<times> val list" where
  "run_builtin b args tr =
     (case b of
        AddInteger \<Rightarrow> (on_ints args (\<lambda>x y. Value (VInteger (x + y))), tr)
      | SubtractInteger \<Rightarrow> (on_ints args (\<lambda>x y. Value (VInteger (x - y))), tr)
      | MultiplyInteger \<Rightarrow> (on_ints args (\<lambda>x y. Value (VInteger (x * y))), tr)
      | DivideInteger \<Rightarrow>
          (on_ints args (\<lambda>x y. if y = 0 then Stuck else Value (VInteger (x div y))), tr)
      | RemainderInteger \<Rightarrow>
          (on_ints args
             (\<lambda>x y. if y = 0 then Stuck else Value (VInteger (sgn x * (\<bar>x\<bar> mod \<bar>y\<bar>)))), tr)
      | AppendByteString \<Rightarrow> (on_bytes args (\<lambda>x y. Value (VByteString (x @ y))), tr)
      | EqualsInteger \<Rightarrow> (on_ints args (\<lambda>x y. Value (VBool (x = y))), tr)
      | LessThanInteger \<Rightarrow> (on_ints args (\<lambda>x y. Value (VBool (x < y))), tr)
      | EqualsByteString \<Rightarrow> (on_bytes args (\<lambda>x y. Value (VBool (x = y))), tr)
      | Trace \<Rightarrow>
          (case args of [VText m, v] \<Rightarrow> (Value v, tr @ [VText m]) | _ \<Rightarrow> (Stuck, tr)))"

text \<open>
  Modelled from the spec: the evaluation of a term in an environment of values
  (\<open>eval\<close>), the application of a value to a list of argument terms (\<open>apply_args\<close>) and
  the application of a value to a value (\<open>apply_val\<close>), each threading the trace log.
\<close>

function (sequential) eval :: "nat \<Rightarrow> (string \<times> val) list \<Rightarrow> ast \<Rightarrow> val list \<Rightarrow> (outcome \<times> val list) option"
  and apply_args ::
    "nat \<Rightarrow> (string \<times> val) list \<Rightarrow> val \<Rightarrow> ast list \<Rightarrow> val list \<Rightarrow> (outcome \<times> val list) option"
  and apply_val :: "nat \<Rightarrow> val \<Rightarrow> val \<Rightarrow> val list \<Rightarrow> (outcome \<times> val list) option"
where
  "eval 0 env t tr = None"
| "eval (Suc k) env (Var x) tr =
     (case map_of env x of None \<Rightarrow> Some (Stuck, tr) | Some v \<Rightarrow> Some (Value v, tr))"
| "eval (Suc k) env (Lambda [] b) tr = eval k env b tr"
| "eval (Suc k) env (Lambda (x # xs) b) tr = Some (Value (VLam x (Lambda xs b) env), tr)"
| "eval (Suc k) env (Apply f args) tr =
     (case eval k env f tr of
        Some (Value fv, tr') \<Rightarrow> apply_args k env fv args tr'
      | r \<Rightarrow> r)"
| "eval (Suc k) env (LetIn [] t) tr = eval k env t tr"
| "eval (Suc k) env (LetIn ((x, b) # bs) t) tr =
     (case eval k env b tr of
        Some (Value v, tr') \<Rightarrow> eval k ((x, v) # env) (LetIn bs t) tr'
      | r \<Rightarrow> r)"
| "eval (Suc k) env (Ite c t e) tr =
     (case eval k env c tr of
        Some (Value (VBool b), tr') \<Rightarrow> (if b then eval k env t tr' else eval k env e tr')
      | Some (Value v, tr') \<Rightarrow> Some (Stuck, tr')
      | r \<Rightarrow> r)"
| "eval (Suc k) env (BuiltIn b) tr = Some (Value (VBuiltin b 0 []), tr)"
| "eval (Suc k) env (Integer i) tr = Some (Value (VInteger i), tr)"
| "eval (Suc k) env (ByteString b) tr = Some (Value (VByteString b), tr)"
| "eval (Suc k) env (Text s) tr = Some (Value (VText s), tr)"
| "eval (Suc k) env (Bool b) tr = Some (Value (VBool b), tr)"
| "eval (Suc k) env Unit tr = Some (Value VUnit, tr)"
| "eval (Suc k) env (Force t) tr =
     (case eval k env t tr of
        Some (Value (VBuiltin b n args), tr') \<Rightarrow>
          (if n < forces b \<and> args = [] then Some (Value (VBuiltin b (Suc n) args), tr')
           else Some (Stuck, tr'))
      | Some (Value v, tr') \<Rightarrow> Some (Stuck, tr')
      | r \<Rightarrow> r)"
| "eval (Suc k) env Error tr = Some (Failure, tr)"
| "apply_args 0 env fv args tr = None"
| "apply_args (Suc k) env fv [] tr = Some (Value fv, tr)"
| "apply_args (Suc k) env fv (a # as) tr =
     (case eval k env a tr of
        Some (Value av, tr') \<Rightarrow>
          (case apply_val k fv av tr' of
             Some (Value r, tr'') \<Rightarrow> apply_args k env r as tr''
           | r \<Rightarrow> r)
      | r \<Rightarrow> r)"
| "apply_val 0 fv av tr = None"
| "apply_val (Suc k) (VLam x b env) av tr = eval k ((x, av) # env) b tr"
| "apply_val (Suc k) (VBuiltin b n args) av tr =
     (if n < forces b then Some (Stuck, tr)
      else if length args + 1 < arity b then Some (Value (VBuiltin b n (args @ [av])), tr)
      else Some (run_builtin b (args @ [av]) tr))"
| "apply_val (Suc k) fv av tr = Some (Stuck, tr)"
  by pat_completeness auto
termination
  by (relation "measure (\<lambda>x. case x of Inl a \<Rightarrow> fst a | Inr (Inl b) \<Rightarrow> fst b | Inr (Inr c) \<Rightarrow> fst c)")
     auto


section \<open>Scenarios\<close>

text \<open>
  The sequence \<^verbatim>\<open>x = 1; y = x\<close>, with the terms that the two assignments lower to.
\<close>

definition assign_x_1 :: stmt where
  "assign_x_1 = Assign [Name ''x'' Store IntegerType] (Constant (CInt 1) IntegerType)"

definition assign_y_x :: stmt where
  "assign_y_x = Assign [Name ''y'' Store IntegerType] (Name ''x'' Load IntegerType)"

definition lowered_x_1 :: ast where
  "lowered_x_1 =
     Lambda [''s'']
       (Lambda [''x'']
          (Ite (Apply (BuiltIn EqualsByteString) [Var ''x'', ByteString ''x''])
               (Apply (Lambda [''s''] (Integer 1)) [Var ''s''])
               (Apply (Var ''s'') [Var ''x''])))"

definition lowered_y_x :: ast where
  "lowered_y_x =
     Lambda [''s'']
       (Lambda [''x'']
          (Ite (Apply (BuiltIn EqualsByteString) [Var ''x'', ByteString ''y''])
               (Apply (Lambda [''s''] (Apply (Var ''s'') [ByteString ''x''])) [Var ''s''])
               (Apply (Var ''s'') [Var ''x''])))"

text \<open>
  The sequencing that the specification describes: the environment produced by statement
  \<open>i\<close> feeds statement \<open>i + 1\<close>, under one abstraction over the initial environment.
\<close>

definition spec_sequence :: "ast list \<Rightarrow> ast" where
  "spec_sequence compiled =
     Lambda [STATEMONAD] (foldl (\<lambda>s c. Apply c [s]) (Var STATEMONAD) compiled)"

text \<open>The call \<^verbatim>\<open>print(1)\<close>, and the shape of a lowered call in the specification:
  the lowered callee applied to the environment, the result applied to the arguments.\<close>

definition call_print_1 :: expr where
  "call_print_1 = Call (Name ''print'' Load UnitType) [Constant (CInt 1) IntegerType] UnitType"

definition lowered_call_print_1 :: ast where
  "lowered_call_print_1 =
     Lambda [''s'']
       (Apply (Lambda [''s''] (Apply (Var ''s'') [ByteString ''print'']))
          [Apply (Lambda [''s''] (Integer 1)) [Var ''s'']])"

definition spec_call :: "ast \<Rightarrow> ast list \<Rightarrow> ast" where
  "spec_call compiled_f compiled_args =
     Lambda [STATEMONAD]
       (Apply (Apply compiled_f [Var STATEMONAD])
          (map (\<lambda>a. Apply a [Var STATEMONAD]) compiled_args))"

text \<open>The expression statement \<^verbatim>\<open>u\<close> that reads a variable which is bound nowhere, and
  the shape of a lowered expression statement in the specification.\<close>

definition expr_stmt_u :: stmt where
  "expr_stmt_u = Expr (Name ''u'' Load IntegerType)"

definition lowered_u :: ast where
  "lowered_u = Lambda [''s''] (Apply (Var ''s'') [ByteString ''u''])"

definition lowered_expr_stmt_u :: ast where
  "lowered_expr_stmt_u = Lambda [''s''] (Apply (Lambda [''_''] (Var ''s'')) [lowered_u])"

definition spec_expr_stmt :: "ast \<Rightarrow> ast" where
  "spec_expr_stmt compiled =
     Lambda [STATEMONAD] (Apply (Lambda [''_''] (Var STATEMONAD)) [Apply compiled [Var STATEMONAD]])"









text \<open>
  The built-in \<^verbatim>\<open>print\<close> of the specification: it emits a trace event with its argument
  and returns the argument.
\<close>

definition spec_print :: ast where
  "spec_print =
     Lambda [STATEMONAD] (Lambda [''x''] (Apply (Force (BuiltIn Trace)) [Var ''x'', Var ''x'']))"

text \<open>The value of the variable \<open>name\<close> in the environment that the term \<open>env\<close> denotes.\<close>

definition lookup_in :: "nat \<Rightarrow> ast \<Rightarrow> string \<Rightarrow> (outcome \<times> val list) option" where
  "lookup_in k env name = eval k [] (Apply env [ByteString (encode name)]) []"

section \<open>Facts about evaluation\<close>

text \<open>More fuel never changes a result, so the result of an evaluation is unique.\<close>

lemma eval_mono_Suc:
  "eval k env t tr = Some r \<Longrightarrow> eval (Suc k) env t tr = Some r"
  "apply_args k env fv args tr = Some r \<Longrightarrow> apply_args (Suc k) env fv args tr = Some r"
  "apply_val k fv av tr = Some r \<Longrightarrow> apply_val (Suc k) fv av tr = Some r"
proof (induction k env t tr and k env fv args tr and k fv av tr arbitrary: r and r and r
       rule: eval_apply_args_apply_val.induct)
qed (auto split: option.splits outcome.splits val.splits prod.splits if_splits)

lemma eval_mono: "k \<le> k' \<Longrightarrow> eval k env t tr = Some r \<Longrightarrow> eval k' env t tr = Some r"
  by (induction rule: dec_induct) (auto intro: eval_mono_Suc)


lemma eval_deterministic:
  assumes "eval k env t tr = Some r" and "eval k' env t tr = Some r'"
  shows "r = r'"
proof -
  have "eval (max k k') env t tr = Some r"
    using eval_mono[OF _ assms(1), of "max k k'"] by simp
  moreover have "eval (max k k') env t tr = Some r'"
    using eval_mono[OF _ assms(2), of "max k k'"] by simp
  ultimately show ?thesis by simp
qed

lemma fuel5: "k + 5 = Suc (Suc (Suc (Suc (Suc k))))"
  by simp

lemma fuel10: "k + 10 = Suc (Suc (Suc (Suc (Suc (Suc (Suc (Suc (Suc (Suc k)))))))))"
  by simp

lemma fuel20:
  "k + 20 = Suc (Suc (Suc (Suc (Suc (Suc (Suc (Suc (Suc (Suc (Suc (Suc (Suc (Suc (Suc
     (Suc (Suc (Suc (Suc (Suc k)))))))))))))))))))"
  by simp



lemmas builtin_defs =
  arity_def forces_def run_builtin_def on_bytes_def bytes_args_def on_ints_def int_args_def

lemma show_small:
  "show_nat 0 = ''0''" "show_nat (Suc 0) = ''1''" "show_nat (Suc (Suc 0)) = ''2''"
  "show_nat 2 = ''2''"
  by (simp_all add: show_nat.simps)

lemmas nth_defs = emulate_nth_def emulate_tuple_def show_int_def show_small upt_rec

lemma nth_of_pair:
  "eval (k + 20) [(''x0'', a), (''x1'', b)]
     (emulate_nth (emulate_tuple [Var ''x0'', Var ''x1'']) 0 2) tr = Some (Value a, tr)"
  "eval (k + 20) [(''x0'', a), (''x1'', b)]
     (emulate_nth (emulate_tuple [Var ''x0'', Var ''x1'']) 1 2) tr = Some (Value b, tr)"
  unfolding fuel20 by (simp_all add: nth_defs)

lemma nth_of_triple:
  "eval (k + 20) [(''x0'', a), (''x1'', b), (''x2'', c)]
     (emulate_nth (emulate_tuple [Var ''x0'', Var ''x1'', Var ''x2'']) 0 3) tr
   = Some (Value a, tr)"
  "eval (k + 20) [(''x0'', a), (''x1'', b), (''x2'', c)]
     (emulate_nth (emulate_tuple [Var ''x0'', Var ''x1'', Var ''x2'']) 1 3) tr
   = Some (Value b, tr)"
  "eval (k + 20) [(''x0'', a), (''x1'', b), (''x2'', c)]
     (emulate_nth (emulate_tuple [Var ''x0'', Var ''x1'', Var ''x2'']) 2 3) tr
   = Some (Value c, tr)"
  unfolding fuel20 by (simp_all add: nth_defs)

text \<open>The shape of a lowered sequence of two statements and of a lowered call.\<close>

lemma visit_sequence_two:
  "visit_stmt s1 = Inr c1 \<Longrightarrow> visit_stmt s2 = Inr c2 \<Longrightarrow>
   visit_sequence [s1, s2] = Inr (Lambda [STATEMONAD] (Apply c1 [Apply c2 [Var STATEMONAD]]))"
  by (simp add: visit_sequence_def)

lemma visit_Call_shape:
  "visit f = Inr cf \<Longrightarrow> visit_args args = Inr cas \<Longrightarrow>
   visit (Call f args t) =
     Inr (Lambda [STATEMONAD] (Apply cf (map (\<lambda>a. Apply a [Var STATEMONAD]) cas)))"
  by simp

section \<open>Statement sequences\<close>

text \<open>
  C1. The claim: lowering a sequence threads the environment in source order, so that the
  lowered \<^verbatim>\<open>[s1, s2]\<close> applied to \<open>e\<close> is \<open>lower(s2)(lower(s1)(e))\<close>. The loop of
  \<^verbatim>\<open>visit_sequence\<close> runs over the reversed list and wraps the term built so far, which
  nests the other way round: for \<^verbatim>\<open>x = 1; y = x\<close> the lowered sequence is
  \<open>lower(x = 1)(lower(y = x)(e))\<close>. Applied to the bootstrap environment, it yields an
  environment in which reading \<^verbatim>\<open>y\<close> reaches the failure term, since \<^verbatim>\<open>y = x\<close> was
  given the environment without \<^verbatim>\<open>x\<close>; the sequencing of the specification yields 1.
\<close>

theorem C1_sequence_nests_in_reverse:
  "visit_stmt assign_x_1 = Inr lowered_x_1 \<and>
   visit_stmt assign_y_x = Inr lowered_y_x \<and>
   visit_sequence [assign_x_1, assign_y_x] =
     Inr (Lambda [STATEMONAD] (Apply lowered_x_1 [Apply lowered_y_x [Var STATEMONAD]])) \<and>
   lookup_in 40
     (Apply (Lambda [STATEMONAD] (Apply lowered_x_1 [Apply lowered_y_x [Var STATEMONAD]]))
        [INITIAL_STATE]) ''y'' = Some (Failure, []) \<and>
   lookup_in 40 (Apply (spec_sequence [lowered_x_1, lowered_y_x]) [INITIAL_STATE]) ''y'' =
     Some (Value (VInteger 1), [])"
  by code_simp

section \<open>Calls\<close>

text \<open>
  C2. The claim: a lowered call applies the lowered callee to the environment first and
  the result to the argument values. \<^verbatim>\<open>visit_Call\<close> applies the lowered callee to the
  argument values directly; the arguments are applied to the environment, in source
  order. For \<^verbatim>\<open>print(1)\<close> the lowered callee, which expects the environment, receives 1,
  and the evaluation is stuck on the application of 1 to the name.
\<close>

theorem C2_call_passes_arguments_to_lowered_callee:
  "visit call_print_1 = Inr lowered_call_print_1 \<and>
   visit call_print_1 \<noteq>
     Inr (spec_call (Lambda [''s''] (Apply (Var ''s'') [ByteString ''print'']))
            [Lambda [''s''] (Integer 1)]) \<and>
   eval 40 [] (Apply lowered_call_print_1 [INITIAL_STATE]) [] = Some (Stuck, [])"
  by code_simp

section \<open>Expression statements\<close>

text \<open>
  C3. The claim: a lowered expression statement returns its environment unchanged after
  the lowered expression has been applied to the environment. \<^verbatim>\<open>visit_Expr\<close> passes the
  lowered expression itself, an abstraction, to the discarding binding, so the expression
  is never evaluated: the statement \<^verbatim>\<open>u\<close>, whose evaluation in the bootstrap environment
  reaches the failure term, returns the bootstrap environment, whereas the term of the
  specification fails.
\<close>

theorem C3_expr_statement_discards_unevaluated:
  "visit_stmt expr_stmt_u = Inr lowered_expr_stmt_u \<and>
   eval 40 [] (Apply lowered_expr_stmt_u [INITIAL_STATE]) [] = eval 40 [] INITIAL_STATE [] \<and>
   eval 40 [] INITIAL_STATE [] \<noteq> None \<and>
   eval 40 [] INITIAL_STATE [] \<noteq> Some (Failure, []) \<and>
   eval 40 [] (Apply lowered_u [INITIAL_STATE]) [] = Some (Failure, []) \<and>
   eval 40 [] (Apply (spec_expr_stmt lowered_u) [INITIAL_STATE]) [] = Some (Failure, [])"
  by code_simp

section \<open>Extension of an environment\<close>

text \<open>
  C4, as stated: after \<open>extend(env, [n, n], [v1, v2])\<close> a lookup of \<open>n\<close> yields \<open>v1\<close>.
  It fails: with \<open>v1 = 1\<close> and \<open>v2 = 2\<close> the lookup yields 2.
\<close>

theorem C4_first_listed_counterexample:
  "lookup_in 20 (extend_statemonad [''n'', ''n''] [Integer 1, Integer 2] INITIAL_STATE) ''n'' =
     Some (Value (VInteger 2), []) \<and>
   lookup_in 20 (extend_statemonad [''n'', ''n''] [Integer 1, Integer 2] INITIAL_STATE) ''n'' \<noteq>
     eval 20 [] (Integer 1) []"
  by code_simp

text \<open>
  C4, amended: the last listed binding wins. Each step of the loop in
  \<^verbatim>\<open>extend_statemonad\<close> puts its test in front of the chain built so far, so the test of
  the last pair is the outermost one, and a lookup of \<open>n\<close> evaluates the term \<open>v2\<close> (with
  \<^verbatim>\<open>x\<close> bound to the name looked up), whatever \<open>v1\<close> and the old environment are.
\<close>

theorem C4_last_listed_binding_wins:
  "extend_statemonad [n, n] [v1, v2] old =
     Lambda [''x'']
       (Ite (Apply (BuiltIn EqualsByteString) [Var ''x'', ByteString (encode n)]) v2
          (Ite (Apply (BuiltIn EqualsByteString) [Var ''x'', ByteString (encode n)]) v1
             (Apply old [Var ''x'']))) \<and>
   eval (k + 10) env (Apply (extend_statemonad [n, n] [v1, v2] old) [ByteString (encode n)]) tr =
     eval (k + 5) ((''x'', VByteString (encode n)) # env) v2 tr"
  unfolding fuel10 fuel5
  by (simp add: extend_statemonad_def builtin_defs
      split: option.splits prod.splits outcome.splits)

section \<open>The built-in print\<close>

text \<open>
  C5. The claim: \<^verbatim>\<open>print\<close>, applied to the environment and to an argument, emits a trace
  event with the argument's value and returns that value. The term of the source is
  \<open>\<lambda>s x. Force (Trace (x s) s)\<close>: it applies the argument to the environment, it applies
  the trace primitive before forcing it, and the operand that the primitive would return
  is the environment. Applied to the bootstrap environment and to the value 3, to the
  lowered constant 3 or to a lowered text, the evaluation is stuck and nothing is logged;
  the term of the specification logs the text and returns it.
\<close>

theorem C5_print_is_stuck:
  "eval 40 [] (Apply print_builtin [INITIAL_STATE, Integer 3]) [] = Some (Stuck, []) \<and>
   eval 40 [] (Apply print_builtin [INITIAL_STATE, Lambda [STATEMONAD] (Integer 3)]) [] =
     Some (Stuck, []) \<and>
   eval 40 [] (Apply print_builtin [INITIAL_STATE, Text ''three'']) [] = Some (Stuck, []) \<and>
   eval 40 [] (Apply print_builtin [INITIAL_STATE, Lambda [STATEMONAD] (Text ''three'')]) [] =
     Some (Stuck, []) \<and>
   eval 40 [] (Apply spec_print [INITIAL_STATE, Text ''three'']) [] =
     Some (Value (VText ''three''), [VText ''three''])"
  by code_simp

section \<open>Loops\<close>



section \<open>Tuples\<close>

text \<open>
  C7. For a pair and for a triple of element terms \<open>es\<close> and every index \<open>i\<close> within the
  size, the projection \<open>emulate_nth (emulate_tuple es) i sz\<close> evaluates to the value of the
  \<open>i\<close>-th element. The elements are arbitrary terms that have a value: the \<open>j\<close>-th one
  evaluates to \<open>xs ! j\<close> within fuel \<open>c0\<close>, logging nothing, whatever the name \<^verbatim>\<open>f\<close> is
  bound to. The last condition is needed: \<^verbatim>\<open>emulate_tuple\<close> puts the elements under its
  binder \<^verbatim>\<open>f\<close>, which captures an element that refers to \<^verbatim>\<open>f\<close>.
\<close>

theorem C7_tuple_projection:
  assumes "sz \<in> {2, 3}" and "0 \<le> i" and "i < sz"
    and "length es = nat sz" and "length xs = nat sz"
    and "\<And>j K tr'. j < nat sz \<Longrightarrow>
           eval c0 ((''f'', K) # env) (es ! j) tr' = Some (Value (xs ! j), tr')"
  shows "eval (c0 + 20) env (emulate_nth (emulate_tuple es) i sz) tr
         = Some (Value (xs ! nat i), tr)"
proof -
  have H: "eval k ((''f'', K) # env) (es ! j) tr' = Some (Value (xs ! j), tr')"
    if "c0 \<le> k" and "j < nat sz" for k j K tr'
    using eval_mono[OF that(1) assms(6)[OF that(2)]] .
  consider "sz = 2" | "sz = 3" using assms(1) by auto
  then show ?thesis
  proof cases
    case 1
    obtain e0 e1 where es: "es = [e0, e1]"
      using assms(4) 1 by (auto simp: length_Suc_conv numeral_2_eq_2)
    obtain a b where xs: "xs = [a, b]"
      using assms(5) 1 by (auto simp: length_Suc_conv numeral_2_eq_2)
    have H0: "c0 \<le> k \<Longrightarrow> eval k ((''f'', K) # env) e0 tr' = Some (Value a, tr')"
      for k K tr'
      using H[of k 0 K tr'] 1 es xs by simp
    have H1: "c0 \<le> k \<Longrightarrow> eval k ((''f'', K) # env) e1 tr' = Some (Value b, tr')"
      for k K tr'
      using H[of k 1 K tr'] 1 es xs by simp
    have "i = 0 \<or> i = 1" using assms(2,3) 1 by arith
    then show ?thesis
    proof
      assume "i = 0"
      then show ?thesis unfolding 1 es xs fuel20
        by (simp add: H0 H1 nth_defs builtin_defs)
    next
      assume "i = 1"
      then show ?thesis unfolding 1 es xs fuel20
        by (simp add: H0 H1 nth_defs builtin_defs)
    qed
  next
    case 2
    obtain e0 e1 e2 where es: "es = [e0, e1, e2]"
      using assms(4) 2 by (auto simp: length_Suc_conv numeral_3_eq_3)
    obtain a b c where xs: "xs = [a, b, c]"
      using assms(5) 2 by (auto simp: length_Suc_conv numeral_3_eq_3)
    have H0: "c0 \<le> k \<Longrightarrow> eval k ((''f'', K) # env) e0 tr' = Some (Value a, tr')"
      for k K tr'
      using H[of k 0 K tr'] 2 es xs by simp
    have H1: "c0 \<le> k \<Longrightarrow> eval k ((''f'', K) # env) e1 tr' = Some (Value b, tr')"
      for k K tr'
      using H[of k 1 K tr'] 2 es xs by simp
    have H2: "c0 \<le> k \<Longrightarrow> eval k ((''f'', K) # env) e2 tr' = Some (Value c, tr')"
      for k K tr'
      using H[of k 2 K tr'] 2 es xs by simp
    have "i = 0 \<or> i = 1 \<or> i = 2" using assms(2,3) 2 by arith
    then show ?thesis
    proof (elim disjE)
      assume "i = 0"
      then show ?thesis unfolding 2 es xs fuel20
        by (simp add: H0 H1 H2 nth_defs builtin_defs)
    next
      assume "i = 1"
      then show ?thesis unfolding 2 es xs fuel20
        by (simp add: H0 H1 H2 nth_defs builtin_defs)
    next
      assume "i = 2"
      then show ?thesis unfolding 2 es xs fuel20
        by (simp add: H0 H1 H2 nth_defs builtin_defs)
    qed
  qed
qed

theorem C7_tuple_projection_witness:
  "eval 21 [(''y'', VBool True)]
     (emulate_nth (emulate_tuple [Integer 5, Var ''y'', Unit]) 1 3) []
   = Some (Value (VBool True), [])"
proof -
  have h: "eval 1 ((''f'', K) # [(''y'', VBool True)]) ([Integer 5, Var ''y'', Unit] ! j) tr' =
      Some (Value ([VInteger 5, VBool True, VUnit] ! j), tr')"
    if "j < nat 3" for j K tr'
  proof -
    have "j = 0 \<or> j = 1 \<or> j = 2" using that by arith
    then show ?thesis by auto
  qed
  show ?thesis
    using C7_tuple_projection [of 3 1 "[Integer 5, Var ''y'', Unit]"
        "[VInteger 5, VBool True, VUnit]" 1 "[(''y'', VBool True)]" "[]", OF _ _ _ _ _ h]
    by simp
qed

section \<open>Unbound names\<close>

text \<open>
  C8. For every name other than the names of the built-ins, the bootstrap environment
  applied to the byte string of the name evaluates to the explicit failure term, and so
  does the lowered read of the name applied to the bootstrap environment.
\<close>

theorem C8_unbound_name_fails:
  "n \<notin> set (map fst PythonBuiltIn) \<Longrightarrow>
   eval (k + 20) env (Apply INITIAL_STATE [ByteString (encode n)]) tr = Some (Failure, tr) \<and>
   visit (Name n Load t) =
     Inr (Lambda [STATEMONAD] (Apply (Var STATEMONAD) [ByteString (encode n)])) \<and>
   eval (k + 20) env
     (Apply (Lambda [STATEMONAD] (Apply (Var STATEMONAD) [ByteString (encode n)]))
        [INITIAL_STATE]) tr = Some (Failure, tr)"
  unfolding fuel20
  by (simp add: INITIAL_STATE_def PythonBuiltIn_def encode_def extend_statemonad_def
      STATEMONAD_def builtin_defs)

theorem C8_unbound_name_fails_witness:
  "''total'' \<notin> set (map fst PythonBuiltIn) \<and>
   eval 20 [] (Apply INITIAL_STATE [ByteString (encode ''total'')]) [] = Some (Failure, [])"
proof -
  have h: "''total'' \<notin> set (map fst PythonBuiltIn)"
    by (simp add: PythonBuiltIn_def)
  show ?thesis
    using h C8_unbound_name_fails [OF h, of 0 "[]" "[]" IntegerType] by simp
qed


section \<open>Operator dispatch\<close>

text \<open>
  C9, as stated: for every pair absent from the tables, lowering raises the error that
  names the operator and the type. It fails for an operator without a row in the table:
  the error for \<^verbatim>\<open>2 ** 3\<close> on integers names the operator only.
\<close>

theorem C9_absent_operator_counterexample:
  "BinOpMap Pow = None \<and>
   visit (BinOp (Constant (CInt 2) IntegerType) Pow (Constant (CInt 3) IntegerType) IntegerType)
     = Inl (NotImplementedError (BinOpNotImplemented Pow)) \<and>
   visit (BinOp (Constant (CInt 2) IntegerType) Pow (Constant (CInt 3) IntegerType) IntegerType)
     \<noteq> Inl (NotImplementedError (BinOpNotImplementedForType Pow IntegerType))"
  by (simp add: BinOpMap_def)

text \<open>
  C9, amended. For a pair in a table, lowering a \<^verbatim>\<open>BinOp\<close> (keyed by the operator and the
  type of the node) or a \<^verbatim>\<open>Compare\<close> with one operator and one comparator (keyed by the
  operator and the type of the left operand) succeeds whenever both operands lower, and
  emits the built-in of the table, applied to the two lowered operands. For a pair that is
  not in the table, lowering raises \<^verbatim>\<open>NotImplementedError\<close> whatever the operands are:
  the message names the operator and the type when the operator has a row that lacks the
  type, and the operator alone when the operator has no row.
\<close>

theorem C9_operator_dispatch:
  "(BinOpMap oper = Some row \<and> row t = Some b \<and> visit l = Inr cl \<and> visit r = Inr cr \<longrightarrow>
      visit (BinOp l oper r t) =
        Inr (Lambda [STATEMONAD]
               (Apply (BuiltIn b) [Apply cl [Var STATEMONAD], Apply cr [Var STATEMONAD]]))) \<and>
   (BinOpMap oper = Some row \<and> row t = None \<longrightarrow>
      visit (BinOp l oper r t) =
        Inl (NotImplementedError (BinOpNotImplementedForType oper t))) \<and>
   (BinOpMap oper = None \<longrightarrow>
      visit (BinOp l oper r t) = Inl (NotImplementedError (BinOpNotImplemented oper))) \<and>
   (CmpMap c = Some crow \<and> crow (typ_of l) = Some b' \<and> visit l = Inr cl \<and> visit r = Inr cr \<longrightarrow>
      visit (Compare l [c] [r] t') =
        Inr (Lambda [STATEMONAD]
               (Apply (BuiltIn b') [Apply cl [Var STATEMONAD], Apply cr [Var STATEMONAD]]))) \<and>
   (CmpMap c = Some crow \<and> crow (typ_of l) = None \<longrightarrow>
      visit (Compare l [c] [r] t') =
        Inl (NotImplementedError (CmpNotImplementedForType c (typ_of l)))) \<and>
   (CmpMap c = None \<longrightarrow>
      visit (Compare l [c] [r] t') = Inl (NotImplementedError (CmpNotImplemented c)))"
  by simp

theorem C9_operator_dispatch_witness:
  "visit (BinOp (Constant (CBytes ''ab'') ByteStringType) Add
            (Constant (CBytes ''cd'') ByteStringType) ByteStringType) =
     Inr (Lambda [STATEMONAD]
            (Apply (BuiltIn AppendByteString)
               [Apply (Lambda [STATEMONAD] (ByteString ''ab'')) [Var STATEMONAD],
                Apply (Lambda [STATEMONAD] (ByteString ''cd'')) [Var STATEMONAD]])) \<and>
   visit (BinOp (OtherExpr ''List'' UnitType) Sub (OtherExpr ''List'' UnitType) ByteStringType) =
     Inl (NotImplementedError (BinOpNotImplementedForType Sub ByteStringType)) \<and>
   visit (BinOp (OtherExpr ''List'' UnitType) BitOr (OtherExpr ''List'' UnitType) IntegerType) =
     Inl (NotImplementedError (BinOpNotImplemented BitOr)) \<and>
   visit (Compare (Constant (CBool True) BoolType) [Eq] [Constant (CBool False) BoolType]
            BoolType) =
     Inr (Lambda [STATEMONAD]
            (Apply (BuiltIn EqualsInteger)
               [Apply (Lambda [STATEMONAD] (Bool True)) [Var STATEMONAD],
                Apply (Lambda [STATEMONAD] (Bool False)) [Var STATEMONAD]])) \<and>
   visit (Compare (OtherExpr ''List'' ByteStringType) [Lt] [OtherExpr ''List'' UnitType]
            BoolType) =
     Inl (NotImplementedError (CmpNotImplementedForType Lt ByteStringType)) \<and>
   visit (Compare (OtherExpr ''List'' IntegerType) [GtE] [OtherExpr ''List'' UnitType]
            BoolType) =
     Inl (NotImplementedError (CmpNotImplemented GtE))"
proof -
  let ?ab = "Constant (CBytes ''ab'') ByteStringType"
  let ?cd = "Constant (CBytes ''cd'') ByteStringType"
  let ?tt = "Constant (CBool True) BoolType"
  let ?ff = "Constant (CBool False) BoolType"
  have add: "BinOpMap Add = Some [IntegerType \<mapsto> AddInteger, ByteStringType \<mapsto> AppendByteString]"
    and sub: "BinOpMap Sub = Some [IntegerType \<mapsto> SubtractInteger]"
    and bitor: "BinOpMap BitOr = None"
    by (simp_all add: BinOpMap_def)
  have eq: "CmpMap Eq = Some [IntegerType \<mapsto> EqualsInteger,
              ByteStringType \<mapsto> EqualsByteString, BoolType \<mapsto> EqualsInteger]"
    and lt: "CmpMap Lt = Some [IntegerType \<mapsto> LessThanInteger]"
    and gte: "CmpMap GtE = None"
    by (simp_all add: CmpMap_def)
  have lower: "visit ?ab = Inr (Lambda [STATEMONAD] (ByteString ''ab''))"
    "visit ?cd = Inr (Lambda [STATEMONAD] (ByteString ''cd''))"
    "visit ?tt = Inr (Lambda [STATEMONAD] (Bool True))"
    "visit ?ff = Inr (Lambda [STATEMONAD] (Bool False))"
    by (simp_all add: ConstantMap_def)
  show ?thesis
    using
      C9_operator_dispatch [of Add "[IntegerType \<mapsto> AddInteger, ByteStringType \<mapsto> AppendByteString]"
        ByteStringType AppendByteString ?ab "Lambda [STATEMONAD] (ByteString ''ab'')"
        ?cd "Lambda [STATEMONAD] (ByteString ''cd'')"]
      C9_operator_dispatch [of Sub "[IntegerType \<mapsto> SubtractInteger]" ByteStringType _
        "OtherExpr ''List'' UnitType" _ "OtherExpr ''List'' UnitType"]
      C9_operator_dispatch [of BitOr _ IntegerType _
        "OtherExpr ''List'' UnitType" _ "OtherExpr ''List'' UnitType"]
      C9_operator_dispatch [of _ _ _ _ ?tt "Lambda [STATEMONAD] (Bool True)" ?ff
        "Lambda [STATEMONAD] (Bool False)" Eq
        "[IntegerType \<mapsto> EqualsInteger, ByteStringType \<mapsto> EqualsByteString,
          BoolType \<mapsto> EqualsInteger]" EqualsInteger BoolType]
      C9_operator_dispatch [of _ _ _ _ "OtherExpr ''List'' ByteStringType" _
        "OtherExpr ''List'' UnitType" _ Lt "[IntegerType \<mapsto> LessThanInteger]" _ BoolType]
      C9_operator_dispatch [of _ _ _ _ "OtherExpr ''List'' IntegerType" _
        "OtherExpr ''List'' UnitType" _ GtE _ _ BoolType]
      add sub bitor eq lt gte lower
    by simp
qed

text \<open>
  C10, as stated: for every \<^verbatim>\<open>Compare\<close> whose left operand has type Integer, the integer
  comparison built-in is emitted. It fails for an operator that the table does not list:
  lowering \<^verbatim>\<open>i > 3\<close> with an Integer left operand raises an error and emits nothing.
\<close>

theorem C10_unlisted_operator_counterexample:
  "typ_of (Name ''i'' Load IntegerType) = IntegerType \<and>
   visit (Compare (Name ''i'' Load IntegerType) [Gt] [Constant (CInt 3) IntegerType] BoolType)
     = Inl (NotImplementedError (CmpNotImplemented Gt))"
  by (simp add: CmpMap_def)

text \<open>
  C10, amended. The result of lowering a \<^verbatim>\<open>Compare\<close> depends on the comparator through
  its lowered term only, never through its type: two comparators that lower alike give
  the same result, for every left operand and every operator list. Whenever lowering a
  \<^verbatim>\<open>Compare\<close> with one operator and one comparator succeeds, the built-in emitted is the
  entry of the table at the operator and the type of the left operand. With a left
  operand of type Integer and operands that lower, the operators \<^verbatim>\<open>Eq\<close> and \<^verbatim>\<open>Lt\<close> give
  the integer comparisons whatever the type of the comparator is; every operator other
  than these two raises \<^verbatim>\<open>NotImplementedError\<close>, naming the operator.
\<close>

theorem C10_compare_keyed_by_left_type:
  "(visit r' = visit r \<longrightarrow> visit (Compare l ops [r'] t') = visit (Compare l ops [r] t)) \<and>
   (visit (Compare l [c] [r] t) = Inr lowered \<longrightarrow>
      (\<exists>row b cl cr.
         CmpMap c = Some row \<and> row (typ_of l) = Some b \<and>
         visit l = Inr cl \<and> visit r = Inr cr \<and>
         lowered =
           Lambda [STATEMONAD]
             (Apply (BuiltIn b) [Apply cl [Var STATEMONAD], Apply cr [Var STATEMONAD]]))) \<and>
   (typ_of l = IntegerType \<and> c \<in> {Eq, Lt} \<and> visit l = Inr cl \<and> visit r = Inr cr \<longrightarrow>
      visit (Compare l [c] [r] t) =
        Inr (Lambda [STATEMONAD]
               (Apply (BuiltIn (if c = Eq then EqualsInteger else LessThanInteger))
                  [Apply cl [Var STATEMONAD], Apply cr [Var STATEMONAD]]))) \<and>
   (c \<notin> {Eq, Lt} \<longrightarrow>
      visit (Compare l [c] [r] t) = Inl (NotImplementedError (CmpNotImplemented c)))"
proof (intro conjI impI)
  assume "visit r' = visit r"
  then have "visit_args [r'] = visit_args [r]"
    by simp
  then show "visit (Compare l ops [r'] t') = visit (Compare l ops [r] t)"
    by (simp split: option.splits sum.splits)
next
  assume "visit (Compare l [c] [r] t) = Inr lowered"
  then show "\<exists>row b cl cr.
         CmpMap c = Some row \<and> row (typ_of l) = Some b \<and>
         visit l = Inr cl \<and> visit r = Inr cr \<and>
         lowered =
           Lambda [STATEMONAD]
             (Apply (BuiltIn b) [Apply cl [Var STATEMONAD], Apply cr [Var STATEMONAD]])"
    by (auto split: option.splits sum.splits)
next
  assume "typ_of l = IntegerType \<and> c \<in> {Eq, Lt} \<and> visit l = Inr cl \<and> visit r = Inr cr"
  then show "visit (Compare l [c] [r] t) =
        Inr (Lambda [STATEMONAD]
               (Apply (BuiltIn (if c = Eq then EqualsInteger else LessThanInteger))
                  [Apply cl [Var STATEMONAD], Apply cr [Var STATEMONAD]]))"
    by (auto simp: CmpMap_def)
next
  assume "c \<notin> {Eq, Lt}"
  then have "CmpMap c = None"
    by (cases c) (simp_all add: CmpMap_def)
  then show "visit (Compare l [c] [r] t) = Inl (NotImplementedError (CmpNotImplemented c))"
    by simp
qed

theorem C10_compare_keyed_by_left_type_witness:
  "visit (Compare (Name ''i'' Load IntegerType) [Lt] [Constant (CInt 3) ByteStringType] BoolType)
   = Inr (Lambda [STATEMONAD]
            (Apply (BuiltIn LessThanInteger)
               [Apply (Lambda [STATEMONAD] (Apply (Var STATEMONAD) [ByteString (encode ''i'')]))
                  [Var STATEMONAD],
                Apply (Lambda [STATEMONAD] (Integer 3)) [Var STATEMONAD]])) \<and>
   visit (Compare (Name ''i'' Load IntegerType) [Lt] [Constant (CInt 3) ByteStringType] BoolType)
   = visit (Compare (Name ''i'' Load IntegerType) [Lt] [Constant (CInt 3) IntegerType] UnitType) \<and>
   visit (Compare (Name ''i'' Load IntegerType) [NotEq] [Constant (CInt 3) IntegerType] BoolType)
   = Inl (NotImplementedError (CmpNotImplemented NotEq))"
proof -
  let ?i = "Name ''i'' Load IntegerType"
  have l: "visit ?i =
      Inr (Lambda [STATEMONAD] (Apply (Var STATEMONAD) [ByteString (encode ''i'')]))"
    by simp
  have r: "visit (Constant (CInt 3) ByteStringType) = Inr (Lambda [STATEMONAD] (Integer 3))"
    "visit (Constant (CInt 3) IntegerType) = Inr (Lambda [STATEMONAD] (Integer 3))"
    by (simp_all add: ConstantMap_def)
  show ?thesis
    using l r
      C10_compare_keyed_by_left_type [of "Constant (CInt 3) ByteStringType"
        "Constant (CInt 3) IntegerType" ?i "[Lt]" BoolType UnitType Lt _
        "Lambda [STATEMONAD] (Apply (Var STATEMONAD) [ByteString (encode ''i'')])"
        "Lambda [STATEMONAD] (Integer 3)"]
      C10_compare_keyed_by_left_type [of _ "Constant (CInt 3) IntegerType" ?i _ BoolType _ NotEq]
    by simp
qed

end
